theory Spec2Isabelle
  imports Complex_Main
begin

section \<open>Values of the source language\<close>

text \<open>
  The program is a single React component, \<^verbatim>\<open>WeatherApp\<close>, present in two copies:
  \<^verbatim>\<open>src/src/app/page.tsx\<close> and \<^verbatim>\<open>src/unnamed/part_000\<close>. Functions whose text is the same
  in both copies are embedded once; the three places where the copies differ
  (\<^verbatim>\<open>getWeatherIcon\<close>, \<^verbatim>\<open>formatTemperature\<close>, and \<^verbatim>\<open>getBackgroundClass\<close>, which only
  the second copy has) are embedded per copy.

  A string of the source is a \<^typ>\<open>string\<close>, one \<^typ>\<open>char\<close> per UTF-16 code unit; every
  code unit of the strings embedded here is below 256. Epoch seconds, offsets and status
  codes are numbers without a fraction (the provider's JSON carries integers), so they
  are \<^typ>\<open>int\<close>; the sums and products the program forms of them are rounded as the
  platform rounds them, see below. Temperatures are finite numbers with a fraction, so
  they are \<^typ>\<open>rat\<close>.
\<close>

subsection \<open>Arithmetic on numbers without a fraction\<close>

text \<open>
  A number of the source is an IEEE 754 double. Among the integers, the doubles are
  those with at most 53 significant bits, of magnitude below \<open>2^1024\<close>. The result of
  \<^verbatim>\<open>a + b\<close> or \<^verbatim>\<open>a * b\<close> is the exact result rounded to the nearest double, to the one
  with the even mantissa when two are equally near, and it is \<^verbatim>\<open>Infinity\<close> or
  \<^verbatim>\<open>-Infinity\<close> when the rounded magnitude reaches \<open>2^1024\<close>.

  \<open>bit_length n\<close> is the number of bits of \<open>n\<close>; \<open>round_nat\<close> keeps the 53 leading bits
  of a magnitude and rounds on the rest. The integer \<open>2^1024\<close>, above every finite
  double, stands for \<^verbatim>\<open>Infinity\<close>, and its negative for \<^verbatim>\<open>-Infinity\<close>; with that the
  comparisons of the source are the comparisons of \<^typ>\<open>int\<close>.
\<close>

fun bit_length :: "nat \<Rightarrow> nat" where
  "bit_length n = (if n = 0 then 0 else Suc (bit_length (n div 2)))"

declare bit_length.simps [simp del]

definition round_nat :: "nat \<Rightarrow> nat" where
  "round_nat n =
     (let q = 2 ^ (bit_length n - 53); m = n div q; r = n mod q
      in (if q < 2 * r \<or> (2 * r = q \<and> odd m) then m + 1 else m) * q)"

definition round_to_double :: "int \<Rightarrow> int" where
  "round_to_double x =
     (if x < 0 then - int (round_nat (nat (- x))) else int (round_nat (nat x)))"

definition Infinity :: int where
  "Infinity = 2 ^ 1024"

definition to_number :: "int \<Rightarrow> int" where
  "to_number x = max (- Infinity) (min Infinity (round_to_double x))"

definition js_add :: "int \<Rightarrow> int \<Rightarrow> int" where
  "js_add a b = to_number (a + b)"

definition js_mul :: "int \<Rightarrow> int \<Rightarrow> int" where
  "js_mul a b = to_number (a * b)"

subsection \<open>Day or night\<close>

text \<open>
  \<^verbatim>\<open>
  const getDayOrNight = (dt, timezone, sunrise, sunset) => {
      const localTime = dt + timezone;
      const sunriseLocal = sunrise + timezone;
      const sunsetLocal = sunset + timezone;
      return localTime >= sunriseLocal && localTime <= sunsetLocal;
  };
  \<close>
\<close>

definition getDayOrNight :: "int \<Rightarrow> int \<Rightarrow> int \<Rightarrow> int \<Rightarrow> bool" where
  "getDayOrNight dt timezone sunrise sunset =
     (let localTime = js_add dt timezone;
          sunriseLocal = js_add sunrise timezone;
          sunsetLocal = js_add sunset timezone
      in localTime \<ge> sunriseLocal \<and> localTime \<le> sunsetLocal)"

subsection \<open>Strings and numbers of the platform\<close>

text \<open>
  \<^verbatim>\<open>String.prototype.trim\<close> removes white space and line terminators from both ends.
  Of the code units the language counts as such, these seven are below 256: TAB, LF, VT,
  FF, CR, SPACE and NO-BREAK SPACE.
\<close>

definition isWhiteSpace :: "char \<Rightarrow> bool" where
  "isWhiteSpace c =
     (c \<in> set [CHR 0x09, CHR 0x0A, CHR 0x0B, CHR 0x0C, CHR 0x0D, CHR 0x20, CHR 0xA0])"

definition trim :: "string \<Rightarrow> string" where
  "trim s = rev (dropWhile isWhiteSpace (rev (dropWhile isWhiteSpace s)))"

text \<open>\<^verbatim>\<open>s.slice(b, e)\<close> for indices that are not negative.\<close>

definition slice :: "nat \<Rightarrow> nat \<Rightarrow> string \<Rightarrow> string" where
  "slice b e s = take (e - b) (drop b s)"

text \<open>
  \<^verbatim>\<open>Math.round\<close> returns the integer closest to its argument, the larger one of two
  that are equally close. Its result \<open>-0\<close> is rendered as \<^verbatim>\<open>0\<close> by a template literal,
  as is \<open>+0\<close>, so the integer \<open>0\<close> stands for both.
\<close>

definition Math_round :: "rat \<Rightarrow> int" where
  "Math_round x = \<lfloor>x + 1 / 2\<rfloor>"

text \<open>
  The text of an integral number inside a template literal: its decimal digits, with a
  minus sign when negative. (The platform writes the digits this way for magnitudes
  below \<open>10^21\<close>, which covers every temperature.)
\<close>

definition digit :: "nat \<Rightarrow> char" where
  "digit d = ''0123456789'' ! d"

fun digits :: "nat \<Rightarrow> string" where
  "digits n = (if n < 10 then [digit n] else digits (n div 10) @ [digit (n mod 10)])"

declare digits.simps [simp del]

definition String_of_int :: "int \<Rightarrow> string" where
  "String_of_int n = (if n < 0 then CHR ''-'' # digits (nat (- n)) else digits (nat n))"

subsection \<open>Temperature\<close>

text \<open>
  \<^verbatim>\<open>src/src/app/page.tsx\<close>, line 151. The template literal of this copy holds, after the
  number, the three code units U+00C2, U+00B0 and \<^verbatim>\<open>C\<close> (the bytes of the file are
  \<^verbatim>\<open>C3 82 C2 B0 43\<close>):
  \<^verbatim>\<open>
  // Format temperature with degree symbol
  const formatTemperature = (temp: number) => {
      return `${Math.round(temp)}<U+00C2><U+00B0>C`;
  };
  \<close>
\<close>

definition formatTemperature :: "rat \<Rightarrow> string" where
  "formatTemperature temp = String_of_int (Math_round temp) @ [CHR 0xC2, CHR 0xB0, CHR ''C'']"

text \<open>
  \<^verbatim>\<open>src/unnamed/part_000\<close>, line 118. Here the literal holds U+00B0 and \<^verbatim>\<open>C\<close> after the
  number (bytes \<^verbatim>\<open>C2 B0 43\<close>).
\<close>

definition formatTemperature_part_000 :: "rat \<Rightarrow> string" where
  "formatTemperature_part_000 temp = String_of_int (Math_round temp) @ [CHR 0xB0, CHR ''C'']"

subsection \<open>Icons\<close>

text \<open>The components imported from \<^verbatim>\<open>lucide-react\<close>; an element is a component with its class.\<close>

datatype lucide =
  Cloud | CloudSnow | CloudRain | CloudFog | Sun | Moon | Thermometer | Wind | Droplet
  | MapPin | Search | AlertTriangle | Loader2 | CloudSun | CloudMoon | CloudLightning

record element =
  component :: lucide
  className :: string

text \<open>
  \<^verbatim>\<open>src/src/app/page.tsx\<close>, lines 57-82: a \<^verbatim>\<open>switch\<close> on \<^verbatim>\<open>iconCode.slice(0, 2)\<close>, after
  a guard that answers the plain cloud for an empty code. Cases \<^verbatim>\<open>'02'\<close> and \<^verbatim>\<open>'03'\<close>
  share one body; \<^verbatim>\<open>'09'\<close> and \<^verbatim>\<open>'10'\<close> have a body each, with the same element. (The
  constant \<^verbatim>\<open>prefix\<close> of line 60 is never read.)
\<close>

definition getWeatherIcon :: "string \<Rightarrow> bool \<Rightarrow> element" where
  "getWeatherIcon iconCode isDay =
     (if iconCode = [] then \<lparr>component = Cloud, className = ''w-6 h-6''\<rparr>
      else let code = slice 0 2 iconCode in
        if code = ''01'' then
          (if isDay then \<lparr>component = Sun, className = ''w-6 h-6''\<rparr>
           else \<lparr>component = Moon, className = ''w-6 h-6''\<rparr>)
        else if code = ''02'' \<or> code = ''03'' then
          (if isDay then \<lparr>component = CloudSun, className = ''w-6 h-6''\<rparr>
           else \<lparr>component = CloudMoon, className = ''w-6 h-6''\<rparr>)
        else if code = ''04'' then \<lparr>component = Cloud, className = ''w-6 h-6''\<rparr>
        else if code = ''09'' then \<lparr>component = CloudRain, className = ''w-6 h-6''\<rparr>
        else if code = ''10'' then \<lparr>component = CloudRain, className = ''w-6 h-6''\<rparr>
        else if code = ''11'' then \<lparr>component = CloudLightning, className = ''w-6 h-6''\<rparr>
        else if code = ''13'' then \<lparr>component = CloudSnow, className = ''w-6 h-6''\<rparr>
        else if code = ''50'' then \<lparr>component = CloudFog, className = ''w-6 h-6''\<rparr>
        else \<lparr>component = Cloud, className = ''w-6 h-6''\<rparr>)"

text \<open>
  \<^verbatim>\<open>src/unnamed/part_000\<close>, lines 170-198: the same \<^verbatim>\<open>switch\<close>, each class built from
  \<^verbatim>\<open>iconClass = "w-8 h-8"\<close> and a colour; \<^verbatim>\<open>'09'\<close> and \<^verbatim>\<open>'10'\<close> share one body.
\<close>

definition getWeatherIcon_part_000 :: "string \<Rightarrow> bool \<Rightarrow> element" where
  "getWeatherIcon_part_000 iconCode isDay =
     (if iconCode = [] then \<lparr>component = Cloud, className = ''w-8 h-8 text-gray-500''\<rparr>
      else let iconClass = ''w-8 h-8''; code = slice 0 2 iconCode in
        if code = ''01'' then
          (if isDay then \<lparr>component = Sun, className = iconClass @ '' text-yellow-400''\<rparr>
           else \<lparr>component = Moon, className = iconClass @ '' text-gray-300''\<rparr>)
        else if code = ''02'' \<or> code = ''03'' then
          (if isDay then \<lparr>component = CloudSun, className = iconClass @ '' text-yellow-400''\<rparr>
           else \<lparr>component = CloudMoon, className = iconClass @ '' text-gray-300''\<rparr>)
        else if code = ''04'' then \<lparr>component = Cloud, className = iconClass @ '' text-gray-400''\<rparr>
        else if code = ''09'' \<or> code = ''10'' then
          \<lparr>component = CloudRain, className = iconClass @ '' text-blue-400''\<rparr>
        else if code = ''11'' then
          \<lparr>component = CloudLightning, className = iconClass @ '' text-yellow-300''\<rparr>
        else if code = ''13'' then \<lparr>component = CloudSnow, className = iconClass @ '' text-blue-200''\<rparr>
        else if code = ''50'' then \<lparr>component = CloudFog, className = iconClass @ '' text-gray-300''\<rparr>
        else \<lparr>component = Cloud, className = iconClass @ '' text-gray-400''\<rparr>)"

text \<open>The labels of the \<^verbatim>\<open>switch\<close>, in the order of the source.\<close>

definition case_labels :: "string list" where
  "case_labels = [''01'', ''02'', ''03'', ''04'', ''09'', ''10'', ''11'', ''13'', ''50'']"

subsection \<open>Background\<close>

text \<open>
  \<^verbatim>\<open>src/unnamed/part_000\<close>, lines 143-168. Both parameters are optional: \<open>None\<close> is
  \<^verbatim>\<open>undefined\<close>. \<^verbatim>\<open>!weatherCode\<close> holds for \<^verbatim>\<open>undefined\<close> and for the empty string;
  \<^verbatim>\<open>isDay ? a : b\<close> takes \<^verbatim>\<open>b\<close> for \<^verbatim>\<open>undefined\<close> and for \<^verbatim>\<open>false\<close>.
\<close>

definition getBackgroundClass :: "string option \<Rightarrow> bool option \<Rightarrow> string" where
  "getBackgroundClass weatherCode isDay =
     (case weatherCode of
        None \<Rightarrow> ''from-blue-100 to-blue-300 dark:from-gray-800 dark:to-gray-900''
      | Some wc \<Rightarrow>
      if wc = [] then ''from-blue-100 to-blue-300 dark:from-gray-800 dark:to-gray-900''
      else let code = slice 0 2 wc in
        if code = ''01'' then
          (if isDay = Some True
           then ''from-sky-400 to-blue-500 dark:from-blue-900 dark:to-indigo-900''
           else ''from-indigo-900 to-gray-900 dark:from-gray-900 dark:to-black'')
        else if code = ''02'' \<or> code = ''03'' then
          (if isDay = Some True
           then ''from-blue-300 to-blue-400 dark:from-blue-800 dark:to-blue-900''
           else ''from-blue-800 to-indigo-900 dark:from-gray-800 dark:to-gray-900'')
        else if code = ''04'' then ''from-gray-300 to-gray-400 dark:from-gray-700 dark:to-gray-800''
        else if code = ''09'' \<or> code = ''10'' then
          ''from-gray-400 to-blue-500 dark:from-gray-700 dark:to-blue-900''
        else if code = ''11'' then ''from-gray-600 to-blue-700 dark:from-gray-800 dark:to-blue-900''
        else if code = ''13'' then ''from-blue-100 to-blue-300 dark:from-blue-800 dark:to-blue-900''
        else if code = ''50'' then ''from-gray-200 to-gray-300 dark:from-gray-600 dark:to-gray-700''
        else ''from-blue-100 to-blue-300 dark:from-gray-800 dark:to-gray-900'')"

subsection \<open>The provider's record\<close>

text \<open>The interface \<^verbatim>\<open>WeatherData\<close>, its nested objects as records of their own.\<close>

record weather_entry =
  main :: string
  description :: string
  icon :: string

record main_block =
  temp :: rat
  humidity :: rat
  feels_like :: rat
  temp_min :: rat
  temp_max :: rat
  pressure :: rat

record wind_block =
  speed :: rat

record sys_block =
  country :: string
  sunrise :: int
  sunset :: int

record WeatherData =
  name :: string
  main :: main_block
  weather :: "weather_entry list"
  wind :: wind_block
  sys :: sys_block
  dt :: int
  timezone :: int
  cod :: int
  message :: "string option"

subsection \<open>The request and its outcomes\<close>

text \<open>
  What the awaited calls of \<^verbatim>\<open>fetchWeatherData\<close> can give. \<^verbatim>\<open>fetch\<close> either throws
  (the value thrown has a \<^verbatim>\<open>message\<close>, or none) or answers with a response, which has a
  status and a body; \<^verbatim>\<open>response.ok\<close> is the platform's test that the status is in
  200..299. Reading the body (\<^verbatim>\<open>response.json()\<close>, then \<^verbatim>\<open>data.cod\<close>) either throws
  or gives the record.
\<close>

datatype body = BodyThrows "string option" | BodyJson WeatherData

record response =
  status :: nat
  json :: body

datatype fetch_result = FetchThrows "string option" | FetchResponse response

definition ok :: "response \<Rightarrow> bool" where
  "ok r = (200 \<le> status r \<and> status r \<le> 299)"

text \<open>\<^verbatim>\<open>err.message || fallback\<close>: the fallback for no message and for the empty one.\<close>

definition message_or :: "string option \<Rightarrow> string \<Rightarrow> string" where
  "message_or m fallback = (case m of None \<Rightarrow> fallback | Some t \<Rightarrow> if t = [] then fallback else t)"

text \<open>
  The URL of the template literal; \<^verbatim>\<open>API_KEY\<close> is read from the environment and is
  \<^verbatim>\<open>undefined\<close> (\<open>None\<close>) when unset, which the literal writes as the word.
\<close>

definition request_url :: "string option \<Rightarrow> string \<Rightarrow> string" where
  "request_url API_KEY cityName =
     ''https://api.openweathermap.org/data/2.5/weather?q='' @ cityName @ ''&appid=''
       @ (case API_KEY of None \<Rightarrow> ''undefined'' | Some k \<Rightarrow> k) @ ''&units=metric''"

subsection \<open>The component's state\<close>

text \<open>The four \<^verbatim>\<open>useState\<close> cells; \<open>None\<close> is \<^verbatim>\<open>null\<close>.\<close>

record ui_state =
  city :: string
  weatherData :: "WeatherData option"
  loading :: bool
  error :: "string option"

definition initial :: ui_state where
  "initial = \<lparr>city = [], weatherData = None, loading = False, error = None\<rparr>"

text \<open>
  \<^verbatim>\<open>fetchWeatherData\<close> (page.tsx lines 96-128, part_000 lines 66-98; the same text) runs in
  two parts, separated by the \<^verbatim>\<open>await\<close> of the request. \<open>fetch_begin\<close> is the part up
  to the call of \<^verbatim>\<open>fetch\<close>: it gives the state it leaves and the URL it requests, \<open>None\<close>
  when it returns before any request.
\<close>

definition fetch_begin :: "string option \<Rightarrow> string \<Rightarrow> ui_state \<Rightarrow> ui_state \<times> string option" where
  "fetch_begin API_KEY cityName s =
     (if trim cityName = [] then (s, None)
      else (s\<lparr>loading := True, error := None, weatherData := None\<rparr>,
            Some (request_url API_KEY cityName)))"

text \<open>
  \<open>fetch_settle\<close> is the part after the \<^verbatim>\<open>await\<close>: the \<^verbatim>\<open>try\<close> body from the response
  on, the \<^verbatim>\<open>catch\<close> and the \<^verbatim>\<open>finally\<close>. The setters act on the state as it is when
  the request settles.
\<close>

definition fetch_settle :: "fetch_result \<Rightarrow> ui_state \<Rightarrow> ui_state" where
  "fetch_settle r s =
     (let s' =
        (case r of
           FetchThrows m \<Rightarrow> s\<lparr>error := Some (message_or m ''An unexpected error occurred.'')\<rparr>
         | FetchResponse resp \<Rightarrow>
             if \<not> ok resp then
               (if status resp = 404
                then s\<lparr>error := Some ''City not found. Please enter a valid city name.''\<rparr>
                else s\<lparr>error := Some ''An error occurred while fetching weather data.''\<rparr>)
             else
               (case json resp of
                  BodyThrows m \<Rightarrow>
                    s\<lparr>error := Some (message_or m ''An unexpected error occurred.'')\<rparr>
                | BodyJson data \<Rightarrow>
                    if cod data = 404 then s\<lparr>error := Some ''City not found''\<rparr>
                    else s\<lparr>weatherData := Some data\<rparr>))
      in s'\<lparr>loading := False\<rparr>)"

text \<open>One call of \<^verbatim>\<open>fetchWeatherData\<close> run to its end with nothing in between.\<close>

definition fetchWeatherData :: "string option \<Rightarrow> string \<Rightarrow> fetch_result \<Rightarrow> ui_state \<Rightarrow> ui_state" where
  "fetchWeatherData API_KEY cityName r s =
     (case fetch_begin API_KEY cityName s of
        (s', None) \<Rightarrow> s'
      | (s', Some url) \<Rightarrow> fetch_settle r s')"

text \<open>The handler of the error panel's button (page.tsx lines 190-194, part_000 227-231).\<close>

definition dismiss :: "ui_state \<Rightarrow> ui_state" where
  "dismiss s = s\<lparr>error := None, city := []\<rparr>"

subsection \<open>Values derived on each render\<close>

text \<open>
  part_000 lines 200-209. \<^verbatim>\<open>weatherData.weather[0].icon\<close> throws a \<^verbatim>\<open>TypeError\<close> when the
  list of conditions is empty.
\<close>

datatype js_error = TypeError

definition isDayTime :: "ui_state \<Rightarrow> bool" where
  "isDayTime s =
     (case weatherData s of
        None \<Rightarrow> True
      | Some d \<Rightarrow> getDayOrNight (dt d) (timezone d) (sunrise (sys d)) (sunset (sys d)))"

definition backgroundClass :: "ui_state \<Rightarrow> js_error + string" where
  "backgroundClass s =
     (case weatherData s of
        None \<Rightarrow> Inr (getBackgroundClass None None)
      | Some d \<Rightarrow>
          (case weather d of
             [] \<Rightarrow> Inl TypeError
           | w # _ \<Rightarrow> Inr (getBackgroundClass (Some (icon w)) (Some (isDayTime s)))))"

subsection \<open>The events of the page\<close>

text \<open>
  The component renders the error panel alone while \<^verbatim>\<open>error\<close> is truthy, and the input,
  the search button (disabled while \<^verbatim>\<open>loading\<close>) and the card otherwise. An event can
  occur only on an element that is rendered. A request that has been sent settles at
  some later time, with any outcome; \<open>pending\<close> counts the requests sent and not yet
  settled.
\<close>

definition error_panel :: "ui_state \<Rightarrow> bool" where
  "error_panel s = (case error s of None \<Rightarrow> False | Some m \<Rightarrow> m \<noteq> [])"

record app =
  ui :: ui_state
  pending :: nat

datatype event =
    ChangeCity string
  | KeyDown string
  | ClickSearch
  | ClickGoBack
  | Settle fetch_result

definition handleSearch :: "string option \<Rightarrow> app \<Rightarrow> app" where
  "handleSearch API_KEY a =
     (case fetch_begin API_KEY (city (ui a)) (ui a) of
        (s', None) \<Rightarrow> a\<lparr>ui := s'\<rparr>
      | (s', Some url) \<Rightarrow> \<lparr>ui = s', pending = Suc (pending a)\<rparr>)"

fun step :: "string option \<Rightarrow> event \<Rightarrow> app \<Rightarrow> app option" where
  "step API_KEY (ChangeCity t) a =
     (if error_panel (ui a) then None else Some (a\<lparr>ui := (ui a)\<lparr>city := t\<rparr>\<rparr>))"
| "step API_KEY (KeyDown k) a =
     (if error_panel (ui a) then None
      else if k = ''Enter'' then Some (handleSearch API_KEY a) else Some a)"
| "step API_KEY ClickSearch a =
     (if error_panel (ui a) \<or> loading (ui a) then None else Some (handleSearch API_KEY a))"
| "step API_KEY ClickGoBack a =
     (if error_panel (ui a) then Some (a\<lparr>ui := dismiss (ui a)\<rparr>) else None)"
| "step API_KEY (Settle r) a =
     (if pending a = 0 then None
      else Some \<lparr>ui = fetch_settle r (ui a), pending = pending a - 1\<rparr>)"

text \<open>A run of events from a state; \<open>None\<close> when some event cannot occur where it stands.\<close>

fun run :: "string option \<Rightarrow> event list \<Rightarrow> app \<Rightarrow> app option" where
  "run API_KEY [] a = Some a"
| "run API_KEY (e # es) a =
     (case step API_KEY e a of None \<Rightarrow> None | Some a' \<Rightarrow> run API_KEY es a')"

text \<open>A run during which there is never more than one request sent and not settled.\<close>

fun one_at_a_time :: "string option \<Rightarrow> event list \<Rightarrow> app \<Rightarrow> bool" where
  "one_at_a_time API_KEY [] a = (pending a \<le> 1)"
| "one_at_a_time API_KEY (e # es) a =
     (pending a \<le> 1 \<and>
      (case step API_KEY e a of None \<Rightarrow> True | Some a' \<Rightarrow> one_at_a_time API_KEY es a'))"

definition start :: app where
  "start = \<lparr>ui = initial, pending = 0\<rparr>"

text \<open>The state holds an error message and a snapshot at once.\<close>

definition both_active :: "ui_state \<Rightarrow> bool" where
  "both_active s = (error s \<noteq> None \<and> weatherData s \<noteq> None)"

text \<open>A record as the provider sends it for a city it knows, used in the examples.\<close>

definition paris :: WeatherData where
  "paris =
     \<lparr>name = ''Paris'',
      main = \<lparr>temp = 19.5, humidity = 60, feels_like = 19.1, temp_min = 18, temp_max = 21,
              pressure = 1015\<rparr>,
      weather = [\<lparr>weather_entry.main = ''Rain'', description = ''light rain'', icon = ''10d''\<rparr>],
      wind = \<lparr>speed = 3.6\<rparr>,
      sys = \<lparr>country = ''FR'', sunrise = 1700000000, sunset = 1700040000\<rparr>,
      dt = 1700020000, timezone = 3600, cod = 200, message = None\<rparr>"

subsection \<open>Dates and times\<close>

text \<open>
  \<^verbatim>\<open>getFormattedTime\<close> and \<^verbatim>\<open>getFormattedDate\<close> (page.tsx lines 155-175, part_000 lines
  121-141) hand the shifted time to the platform's \<^verbatim>\<open>Date\<close> and its locale-aware
  formatter. The formatter is not code of the program, so it is a parameter: \<open>render\<close>
  writes, for a locale and the options given, the calendar fields of a number of
  milliseconds, and \<open>zoneOffset\<close> is the offset of a named zone at an instant. What the
  platform fixes is how the two are put together: the locale is the host's default when
  the list of locales is empty; the zone is the option \<^verbatim>\<open>timeZone\<close> when given and the
  host's own zone otherwise; the zone \<^verbatim>\<open>UTC\<close> has offset 0; a \<^verbatim>\<open>Date\<close> beyond
  8.64e15 ms (an infinite one too) is invalid and formats as \<^verbatim>\<open>Invalid Date\<close>.
\<close>

datatype format_kind = TimeString | DateString

record format_options =
  weekday :: "string option"
  year :: "string option"
  month :: "string option"
  day :: "string option"
  hour :: "string option"
  minute :: "string option"
  timeZone :: "string option"

record platform =
  render :: "format_kind \<Rightarrow> string \<Rightarrow> format_options \<Rightarrow> int \<Rightarrow> string"
  zoneOffset :: "string \<Rightarrow> int \<Rightarrow> int"

record host =
  defaultLocale :: string
  localOffset :: "int \<Rightarrow> int"

definition new_Date :: "int \<Rightarrow> int option" where
  "new_Date ms = (if \<bar>ms\<bar> \<le> 8640000000000000 then Some ms else None)"

definition toLocaleString ::
  "platform \<Rightarrow> host \<Rightarrow> format_kind \<Rightarrow> int option \<Rightarrow> string list \<Rightarrow> format_options \<Rightarrow> string" where
  "toLocaleString P h kind date locales opts =
     (case date of
        None \<Rightarrow> ''Invalid Date''
      | Some t \<Rightarrow>
          render P kind
            (case locales of [] \<Rightarrow> defaultLocale h | l # _ \<Rightarrow> l)
            opts
            (t + (case timeZone opts of
                    None \<Rightarrow> localOffset h t
                  | Some z \<Rightarrow> if z = ''UTC'' then 0 else zoneOffset P z t)))"

definition getFormattedTime :: "platform \<Rightarrow> host \<Rightarrow> int \<Rightarrow> int \<Rightarrow> string" where
  "getFormattedTime P h timestamp tz =
     (let localTimestamp = js_mul (js_add timestamp tz) 1000;
          date = new_Date localTimestamp
      in toLocaleString P h TimeString date []
           \<lparr>weekday = None, year = None, month = None, day = None,
            hour = Some ''2-digit'', minute = Some ''2-digit'', timeZone = Some ''UTC''\<rparr>)"

definition getFormattedDate :: "platform \<Rightarrow> host \<Rightarrow> int \<Rightarrow> int \<Rightarrow> string" where
  "getFormattedDate P h timestamp tz =
     (let localTimestamp = js_mul (js_add timestamp tz) 1000;
          date = new_Date localTimestamp
      in toLocaleString P h DateString date []
           \<lparr>weekday = Some ''long'', year = Some ''numeric'', month = Some ''long'',
            day = Some ''numeric'', hour = None, minute = None, timeZone = Some ''UTC''\<rparr>)"

subsection \<open>Auxiliary notions for the proofs\<close>

text \<open>
  The invariant of runs with one request at a time: at most one request is pending,
  and while it is pending the state holds neither a message nor a snapshot.
\<close>

definition one_pending_inv :: "app \<Rightarrow> bool" where
  "one_pending_inv a =
     (pending a \<le> 1 \<and> \<not> both_active (ui a)
      \<and> (pending a = 1 \<longrightarrow> error (ui a) = None \<and> weatherData (ui a) = None))"

text \<open>
  A platform and two hosts for the examples. The formatter writes the locale, then the
  hour of the day (for a time) or the day number (for a date) of the milliseconds it is
  given. The hosts share the locale and differ in their own zone.
\<close>

definition demo_platform :: platform where
  "demo_platform =
     \<lparr>render = (\<lambda>kind l opts t.
         l @ (case kind of
                TimeString \<Rightarrow> '' hour '' @ String_of_int (t div 3600000 mod 24)
              | DateString \<Rightarrow> '' day '' @ String_of_int (t div 86400000))),
      zoneOffset = (\<lambda>z t. if z = ''Asia/Kolkata'' then 19800000 else 0)\<rparr>"

definition host_london :: host where
  "host_london = \<lparr>defaultLocale = ''en-GB'', localOffset = (\<lambda>t. 0)\<rparr>"

definition host_kolkata :: host where
  "host_kolkata = \<lparr>defaultLocale = ''en-GB'', localOffset = (\<lambda>t. 19800000)\<rparr>"

section \<open>Rounded arithmetic\<close>

lemma round_nat_examples:
  "round_nat 1700023600 = 1700023600"
  "round_nat (2 ^ 53 + 1) = 2 ^ 53"
  "round_nat (2 ^ 53 + 2) = 2 ^ 53 + 2"
  "round_nat (2 ^ 53 + 3) = 2 ^ 53 + 4"
  "round_nat (2 ^ 54 + 5) = 2 ^ 54 + 4"
  "round_nat (2 ^ 54 + 6) = 2 ^ 54 + 8"
  "round_nat (2 ^ 54 - 1) = 2 ^ 54"
  by (simp_all add: round_nat_def bit_length.simps)

lemma to_number_overflow_examples:
  "to_number (2 ^ 1024 - 2 ^ 970 - 1) = 2 ^ 1024 - 2 ^ 971"
  "to_number (2 ^ 1024 - 2 ^ 970) = Infinity"
  by (simp_all add: to_number_def round_to_double_def Infinity_def round_nat_def bit_length.simps)


lemma bit_length_ge: "n \<noteq> 0 \<Longrightarrow> 2 ^ (bit_length n - 1) \<le> n"
proof (induction n rule: bit_length.induct)
  case (1 n)
  show ?case
  proof (cases "n div 2 = 0")
    case True
    with 1(2) have "n = 1" by linarith
    then show ?thesis by (simp add: bit_length.simps)
  next
    case False
    from 1(1) [OF 1(2) False] have "2 ^ (bit_length (n div 2) - 1) \<le> n div 2" .
    then have a: "2 * 2 ^ (bit_length (n div 2) - 1) \<le> n" by linarith
    from False have "bit_length (n div 2) \<noteq> 0" by (simp add: bit_length.simps [of "n div 2"])
    then have "2 * (2::nat) ^ (bit_length (n div 2) - 1) = 2 ^ bit_length (n div 2)"
      by (cases "bit_length (n div 2)") simp_all
    with a 1(2) show ?thesis by (simp add: bit_length.simps [of n])
  qed
qed

lemma bit_length_le: "n < 2 ^ k \<Longrightarrow> bit_length n \<le> k"
proof (rule ccontr)
  assume lt: "n < 2 ^ k" and gt: "\<not> bit_length n \<le> k"
  have nz: "n \<noteq> 0"
  proof
    assume "n = 0"
    then have "bit_length n = 0" by (simp add: bit_length.simps)
    with gt show False by simp
  qed
  from gt have "k \<le> bit_length n - 1" by simp
  then have "(2::nat) ^ k \<le> 2 ^ (bit_length n - 1)" by (rule power_increasing) simp
  with bit_length_ge [OF nz] lt show False by linarith
qed







lemma round_nat_exact:
  assumes "n \<le> 2 ^ 53"
  shows "round_nat n = n"
proof (cases "n = 2 ^ 53")
  case True
  then show ?thesis by (simp add: round_nat_def bit_length.simps)
next
  case False
  with assms have "n < 2 ^ 53" by simp
  then have "bit_length n \<le> 53" by (rule bit_length_le)
  then show ?thesis by (simp add: round_nat_def)
qed




lemma to_number_exact:
  assumes "\<bar>x\<bar> \<le> 2 ^ 53"
  shows "to_number x = x"
proof -
  from assms have n: "nat \<bar>x\<bar> \<le> 2 ^ 53" by (simp add: nat_le_iff)
  have "round_to_double x = x"
  proof (cases "x < 0")
    case True
    with n have "nat (- x) \<le> 2 ^ 53" by simp
    from round_nat_exact [OF this] True show ?thesis by (simp add: round_to_double_def)
  next
    case False
    with n have "nat x \<le> 2 ^ 53" by simp
    from round_nat_exact [OF this] False show ?thesis by (simp add: round_to_double_def)
  qed
  moreover have "(2::int) ^ 53 \<le> 2 ^ 1024" by (rule power_increasing) simp_all
  ultimately show ?thesis using assms by (simp add: to_number_def Infinity_def)
qed


lemma js_add_exact: "\<bar>a + b\<bar> \<le> 2 ^ 53 \<Longrightarrow> js_add a b = a + b"
  by (simp add: js_add_def to_number_exact)

lemma js_mul_exact: "\<bar>a * b\<bar> \<le> 2 ^ 53 \<Longrightarrow> js_mul a b = a * b"
  by (simp add: js_mul_def to_number_exact)

section \<open>Day or night: the closed interval\<close>






section \<open>Temperature text\<close>

lemma Math_round_nearest:
  "x - 1 / 2 < of_int (Math_round x) \<and> of_int (Math_round x) \<le> x + 1 / 2"
  unfolding Math_round_def by linarith

lemma formatTemperature_part_000_rounds:
  "formatTemperature_part_000 x = String_of_int (Math_round x) @ [CHR 0xB0, CHR ''C'']
   \<and> x - 1 / 2 < of_int (Math_round x) \<and> of_int (Math_round x) \<le> x + 1 / 2"
  using Math_round_nearest [of x] by (simp add: formatTemperature_part_000_def)

lemma formatTemperature_part_000_examples:
  "formatTemperature_part_000 19.5 = [CHR ''2'', CHR ''0'', CHR 0xB0, CHR ''C'']"
  "formatTemperature_part_000 (- 0.4) = [CHR ''0'', CHR 0xB0, CHR ''C'']"
  "formatTemperature_part_000 (- 12.5) = [CHR ''-'', CHR ''1'', CHR ''2'', CHR 0xB0, CHR ''C'']"
  "formatTemperature_part_000 (- 0.5) = [CHR ''0'', CHR 0xB0, CHR ''C'']"
  by (simp_all add: formatTemperature_part_000_def Math_round_def String_of_int_def
        digits.simps digit_def)

text \<open>
  C2. \<^verbatim>\<open>formatTemperature\<close> should give the rounded temperature followed by the degree
  sign U+00B0 and the letter \<^verbatim>\<open>C\<close>, so \<^verbatim>\<open>formatTemperature(19.5)\<close> should be the four
  code units \<^verbatim>\<open>2\<close>, \<^verbatim>\<open>0\<close>, U+00B0, \<^verbatim>\<open>C\<close>. The copy in \<^verbatim>\<open>part_000\<close> gives that. The copy
  in \<^verbatim>\<open>src/src/app/page.tsx\<close> gives five code units: its literal has U+00C2 before the
  degree sign, against its own comment (\<^verbatim>\<open>Format temperature with degree symbol\<close>). The
  rounding is right in both copies.
\<close>

theorem formatTemperature_page_extra_code_unit:
  "formatTemperature 19.5 = [CHR ''2'', CHR ''0'', CHR 0xC2, CHR 0xB0, CHR ''C'']
   \<and> formatTemperature 19.5 \<noteq> [CHR ''2'', CHR ''0'', CHR 0xB0, CHR ''C'']
   \<and> formatTemperature_part_000 19.5 = [CHR ''2'', CHR ''0'', CHR 0xB0, CHR ''C'']"
  by (simp add: formatTemperature_def formatTemperature_part_000_def Math_round_def
        String_of_int_def digits.simps digit_def)

section \<open>Submitting a query\<close>

lemma trim_empty_iff: "trim s = [] \<longleftrightarrow> (\<forall>c\<in>set s. isWhiteSpace c)"
proof
  assume "trim s = []"
  then have "dropWhile isWhiteSpace (rev (dropWhile isWhiteSpace s)) = []"
    by (simp add: trim_def)
  then have rest: "\<forall>c\<in>set (dropWhile isWhiteSpace s). isWhiteSpace c"
    by (simp add: dropWhile_eq_Nil_conv)
  have "dropWhile isWhiteSpace s = []"
  proof (cases "dropWhile isWhiteSpace s")
    case Nil
    then show ?thesis .
  next
    case (Cons x xs)
    then have "\<not> isWhiteSpace x"
      by (metis hd_dropWhile list.sel(1) list.distinct(1))
    moreover have "isWhiteSpace x" using rest Cons by simp
    ultimately show ?thesis by simp
  qed
  then show "\<forall>c\<in>set s. isWhiteSpace c"
    by (simp add: dropWhile_eq_Nil_conv)
next
  assume "\<forall>c\<in>set s. isWhiteSpace c"
  then have d: "dropWhile isWhiteSpace s = []"
    by (simp add: dropWhile_eq_Nil_conv)
  show "trim s = []" unfolding trim_def d by simp
qed

lemma trim_examples:
  "trim '' Paris  '' = ''Paris''"
  "trim [CHR 0x20, CHR 0x09, CHR 0xA0] = []"
  "trim ''New York'' = ''New York''"
  by (simp_all add: trim_def isWhiteSpace_def)

lemma cod_paris: "cod paris = 200"
  by (simp add: paris_def)

text \<open>
  C6. A query that is empty or holds white space only is a no-op: the part of
  \<^verbatim>\<open>fetchWeatherData\<close> before the request returns at once, with no request made (no URL)
  and the state as it was in every field, and so does the whole call, whatever a
  request would have given. The same holds for \<^verbatim>\<open>handleSearch\<close> on a state whose query
  text is blank: no request is added to the pending ones.
\<close>

theorem blank_query_is_noop:
  "\<forall>c\<in>set cityName. isWhiteSpace c \<Longrightarrow>
     fetch_begin K cityName s = (s, None)
     \<and> fetchWeatherData K cityName r s = s
     \<and> (city (ui a) = cityName \<longrightarrow> handleSearch K a = a)"
  by (simp add: fetch_begin_def fetchWeatherData_def handleSearch_def trim_empty_iff)

theorem blank_query_is_noop_witness:
  "trim [CHR 0x20, CHR 0x09, CHR 0x20] = []
   \<and> fetch_begin None [CHR 0x20, CHR 0x09, CHR 0x20]
        \<lparr>city = [CHR 0x20, CHR 0x09, CHR 0x20], weatherData = Some paris, loading = False,
         error = None\<rparr>
      = (\<lparr>city = [CHR 0x20, CHR 0x09, CHR 0x20], weatherData = Some paris, loading = False,
          error = None\<rparr>, None)
   \<and> fetchWeatherData None [] (FetchThrows None) initial = initial"
proof -
  have b: "\<forall>c\<in>set [CHR 0x20, CHR 0x09, CHR 0x20]. isWhiteSpace c"
    by (simp add: isWhiteSpace_def)
  have e: "\<forall>c\<in>set ([] :: string). isWhiteSpace c" by simp
  have t: "trim [CHR 0x20, CHR 0x09, CHR 0x20] = []"
    by (simp add: trim_def isWhiteSpace_def)
  from blank_query_is_noop [OF b] blank_query_is_noop [OF e] t show ?thesis by simp
qed

text \<open>
  C4. For a query that is not empty after trimming, the part of \<^verbatim>\<open>fetchWeatherData\<close>
  that runs before the request is awaited leaves, from any state at all (idle, success
  or error), the state with \<^verbatim>\<open>loading\<close> set and with no error message and no snapshot,
  and has sent the request.
\<close>

theorem submit_enters_loading:
  "trim cityName \<noteq> [] \<Longrightarrow>
     fetch_begin K cityName s
       = (s\<lparr>loading := True, error := None, weatherData := None\<rparr>,
          Some (request_url K cityName))
     \<and> loading (fst (fetch_begin K cityName s))
     \<and> error (fst (fetch_begin K cityName s)) = None
     \<and> weatherData (fst (fetch_begin K cityName s)) = None
     \<and> city (fst (fetch_begin K cityName s)) = city s"
  by (simp add: fetch_begin_def)

theorem submit_enters_loading_witness:
  "trim ''Paris'' \<noteq> []
   \<and> fetch_begin (Some ''k'') ''Paris''
        \<lparr>city = ''Paris'', weatherData = Some paris, loading = False, error = None\<rparr>
      = (\<lparr>city = ''Paris'', weatherData = None, loading = True, error = None\<rparr>,
         Some ''https://api.openweathermap.org/data/2.5/weather?q=Paris&appid=k&units=metric'')
   \<and> fetch_begin (Some ''k'') ''Paris''
        \<lparr>city = ''Paris'', weatherData = None, loading = False, error = Some ''City not found''\<rparr>
      = (\<lparr>city = ''Paris'', weatherData = None, loading = True, error = None\<rparr>,
         Some ''https://api.openweathermap.org/data/2.5/weather?q=Paris&appid=k&units=metric'')"
proof -
  have t: "trim ''Paris'' \<noteq> []"
    by (simp add: trim_def isWhiteSpace_def)
  from submit_enters_loading [OF t, of "Some ''k''"
         "\<lparr>city = ''Paris'', weatherData = Some paris, loading = False, error = None\<rparr>"]
       submit_enters_loading [OF t, of "Some ''k''"
         "\<lparr>city = ''Paris'', weatherData = None, loading = False, error = Some ''City not found''\<rparr>"]
       t
  show ?thesis by (simp add: request_url_def)
qed

section \<open>Icons and themes by prefix\<close>

lemma slice_0_2: "slice 0 2 s = take 2 s"
  by (simp add: slice_def)

lemma take_2_empty_iff: "take 2 a = take 2 b \<Longrightarrow> (a = []) = (b = [])"
  by (cases a; cases b) simp_all

lemma getWeatherIcon_by_prefix:
  "take 2 a = take 2 b \<Longrightarrow> getWeatherIcon a d = getWeatherIcon b d"
  using take_2_empty_iff [of a b] by (simp add: getWeatherIcon_def slice_0_2)

lemma getWeatherIcon_part_000_by_prefix:
  "take 2 a = take 2 b \<Longrightarrow> getWeatherIcon_part_000 a d = getWeatherIcon_part_000 b d"
  using take_2_empty_iff [of a b] by (simp add: getWeatherIcon_part_000_def slice_0_2)

lemma getBackgroundClass_by_prefix:
  "take 2 a = take 2 b \<Longrightarrow> getBackgroundClass (Some a) d = getBackgroundClass (Some b) d"
  using take_2_empty_iff [of a b] by (simp add: getBackgroundClass_def slice_0_2)

lemma getWeatherIcon_rows:
  "map (\<lambda>p. component (getWeatherIcon (p @ r) True)) case_labels
     = [Sun, CloudSun, CloudSun, Cloud, CloudRain, CloudRain, CloudLightning, CloudSnow, CloudFog]"
  "map (\<lambda>p. component (getWeatherIcon (p @ r) False)) case_labels
     = [Moon, CloudMoon, CloudMoon, Cloud, CloudRain, CloudRain, CloudLightning, CloudSnow, CloudFog]"
  by (simp_all add: case_labels_def getWeatherIcon_def slice_0_2)

lemma getWeatherIcon_part_000_rows:
  "map (\<lambda>p. component (getWeatherIcon_part_000 (p @ r) True)) case_labels
     = [Sun, CloudSun, CloudSun, Cloud, CloudRain, CloudRain, CloudLightning, CloudSnow, CloudFog]"
  "map (\<lambda>p. component (getWeatherIcon_part_000 (p @ r) False)) case_labels
     = [Moon, CloudMoon, CloudMoon, Cloud, CloudRain, CloudRain, CloudLightning, CloudSnow, CloudFog]"
  by (simp_all add: case_labels_def getWeatherIcon_part_000_def slice_0_2)

lemma rain_icons:
  "getWeatherIcon (''09'' @ r) d = getWeatherIcon (''10'' @ r') d'"
  "getWeatherIcon_part_000 (''09'' @ r) d = getWeatherIcon_part_000 (''10'' @ r') d'"
  by (simp_all add: getWeatherIcon_def getWeatherIcon_part_000_def slice_0_2)

lemma default_icons:
  "take 2 a \<notin> set case_labels \<Longrightarrow> getWeatherIcon a d = \<lparr>component = Cloud, className = ''w-6 h-6''\<rparr>"
  "take 2 a \<notin> set case_labels \<Longrightarrow> component (getWeatherIcon_part_000 a d) = Cloud"
  by (simp_all add: case_labels_def getWeatherIcon_def getWeatherIcon_part_000_def slice_0_2)

text \<open>
  C7. The icon depends on the code only through its first two characters, in both
  copies of \<^verbatim>\<open>getWeatherIcon\<close>. The table, label by label: \<^verbatim>\<open>01\<close> is the sun by day and
  the moon by night; \<^verbatim>\<open>02\<close> and \<^verbatim>\<open>03\<close> are the sun behind a cloud by day and the moon
  behind a cloud by night; \<^verbatim>\<open>04\<close> is the cloud; \<^verbatim>\<open>09\<close> and \<^verbatim>\<open>10\<close> are both the rain
  cloud, the very same element whatever follows the prefix and whatever the flag;
  \<^verbatim>\<open>11\<close> is lightning, \<^verbatim>\<open>13\<close> snow, \<^verbatim>\<open>50\<close> fog. A code whose first two characters are
  none of the labels (the empty code too) gets the plain cloud; nothing is raised.
\<close>

theorem getWeatherIcon_prefix_table:
  "(take 2 a = take 2 b \<longrightarrow>
      getWeatherIcon a d = getWeatherIcon b d
      \<and> getWeatherIcon_part_000 a d = getWeatherIcon_part_000 b d)
   \<and> map (\<lambda>p. component (getWeatherIcon (p @ r) True)) case_labels
       = [Sun, CloudSun, CloudSun, Cloud, CloudRain, CloudRain, CloudLightning, CloudSnow, CloudFog]
   \<and> map (\<lambda>p. component (getWeatherIcon (p @ r) False)) case_labels
       = [Moon, CloudMoon, CloudMoon, Cloud, CloudRain, CloudRain, CloudLightning, CloudSnow, CloudFog]
   \<and> map (\<lambda>p. component (getWeatherIcon_part_000 (p @ r) True)) case_labels
       = [Sun, CloudSun, CloudSun, Cloud, CloudRain, CloudRain, CloudLightning, CloudSnow, CloudFog]
   \<and> map (\<lambda>p. component (getWeatherIcon_part_000 (p @ r) False)) case_labels
       = [Moon, CloudMoon, CloudMoon, Cloud, CloudRain, CloudRain, CloudLightning, CloudSnow, CloudFog]
   \<and> getWeatherIcon (''09'' @ r) d = getWeatherIcon (''10'' @ r') d'
   \<and> getWeatherIcon_part_000 (''09'' @ r) d = getWeatherIcon_part_000 (''10'' @ r') d'
   \<and> (take 2 a \<notin> set case_labels \<longrightarrow>
        component (getWeatherIcon a d) = Cloud
        \<and> component (getWeatherIcon_part_000 a d) = Cloud)"
  using getWeatherIcon_by_prefix [of a b d] getWeatherIcon_part_000_by_prefix [of a b d]
    getWeatherIcon_rows [of r] getWeatherIcon_part_000_rows [of r]
    rain_icons [of r d r' d'] default_icons [of a d]
  by simp

theorem getWeatherIcon_prefix_table_witness:
  "take 2 ''10d'' = take 2 ''10n''
   \<and> getWeatherIcon ''10d'' True = getWeatherIcon ''10n'' True
   \<and> getWeatherIcon_part_000 ''10d'' True = getWeatherIcon_part_000 ''10n'' True
   \<and> take 2 ''99x'' \<notin> set case_labels
   \<and> component (getWeatherIcon ''99x'' False) = Cloud
   \<and> component (getWeatherIcon_part_000 ''99x'' False) = Cloud"
proof -
  have p: "take 2 ''10d'' = take 2 ''10n''" by simp
  have u: "take 2 ''99x'' \<notin> set case_labels" by (simp add: case_labels_def)
  from getWeatherIcon_prefix_table [of "''10d''" "''10n''" True]
       getWeatherIcon_prefix_table [of "''99x''" "''99x''" False]
       p u
  show ?thesis by simp
qed

lemma neutral_theme:
  "getBackgroundClass None d = ''from-blue-100 to-blue-300 dark:from-gray-800 dark:to-gray-900''"
  "getBackgroundClass (Some []) d = ''from-blue-100 to-blue-300 dark:from-gray-800 dark:to-gray-900''"
  "take 2 a \<notin> set case_labels \<Longrightarrow>
     getBackgroundClass (Some a) d = ''from-blue-100 to-blue-300 dark:from-gray-800 dark:to-gray-900''"
  by (simp_all add: case_labels_def getBackgroundClass_def slice_0_2)

lemma rain_theme:
  "getBackgroundClass (Some (''09'' @ r)) d = getBackgroundClass (Some (''10'' @ r')) d'"
  by (simp add: getBackgroundClass_def slice_0_2)

lemma night_theme: "getBackgroundClass w None = getBackgroundClass w (Some False)"
  by (simp add: getBackgroundClass_def Let_def split: option.split)

lemma theme_all_flags:
  "(\<forall>e. getBackgroundClass (Some a) e = getBackgroundClass (Some b) e)
   \<longleftrightarrow> getBackgroundClass (Some a) (Some True) = getBackgroundClass (Some b) (Some True)
       \<and> getBackgroundClass (Some a) (Some False) = getBackgroundClass (Some b) (Some False)"
proof
  assume "\<forall>e. getBackgroundClass (Some a) e = getBackgroundClass (Some b) e"
  then show "getBackgroundClass (Some a) (Some True) = getBackgroundClass (Some b) (Some True)
       \<and> getBackgroundClass (Some a) (Some False) = getBackgroundClass (Some b) (Some False)"
    by simp
next
  assume h: "getBackgroundClass (Some a) (Some True) = getBackgroundClass (Some b) (Some True)
       \<and> getBackgroundClass (Some a) (Some False) = getBackgroundClass (Some b) (Some False)"
  show "\<forall>e. getBackgroundClass (Some a) e = getBackgroundClass (Some b) e"
  proof
    fix e :: "bool option"
    show "getBackgroundClass (Some a) e = getBackgroundClass (Some b) e"
    proof (cases e)
      case None
      with h show ?thesis by (simp add: night_theme)
    next
      case (Some f)
      with h show ?thesis by (cases f) simp_all
    qed
  qed
qed

lemma icon_all_flags:
  "(\<forall>e. f a e = f b e) \<longleftrightarrow> f a True = f b True \<and> f a False = f b False"
  for f :: "string \<Rightarrow> bool \<Rightarrow> element"
  by (metis (full_types))

lemma same_groups_on_labels:
  "\<forall>p\<in>set case_labels. \<forall>q\<in>set case_labels.
     (getBackgroundClass (Some p) (Some True) = getBackgroundClass (Some q) (Some True)
      \<and> getBackgroundClass (Some p) (Some False) = getBackgroundClass (Some q) (Some False))
     = (getWeatherIcon_part_000 p True = getWeatherIcon_part_000 q True
        \<and> getWeatherIcon_part_000 p False = getWeatherIcon_part_000 q False)"
  by (simp add: case_labels_def getBackgroundClass_def getWeatherIcon_part_000_def slice_0_2)

lemma same_groups_on_labels_page:
  "\<forall>p\<in>set case_labels. \<forall>q\<in>set case_labels.
     (getBackgroundClass (Some p) (Some True) = getBackgroundClass (Some q) (Some True)
      \<and> getBackgroundClass (Some p) (Some False) = getBackgroundClass (Some q) (Some False))
     = (getWeatherIcon p True = getWeatherIcon q True
        \<and> getWeatherIcon p False = getWeatherIcon q False)"
  by (simp add: case_labels_def getBackgroundClass_def getWeatherIcon_def slice_0_2)

lemma to_prefix:
  "getBackgroundClass (Some a) d = getBackgroundClass (Some (take 2 a)) d"
  "getWeatherIcon a e = getWeatherIcon (take 2 a) e"
  "getWeatherIcon_part_000 a e = getWeatherIcon_part_000 (take 2 a) e"
  by (rule getBackgroundClass_by_prefix getWeatherIcon_by_prefix
        getWeatherIcon_part_000_by_prefix, simp)+

lemma same_groups:
  assumes "take 2 a \<in> set case_labels" and "take 2 b \<in> set case_labels"
  shows "(\<forall>e. getBackgroundClass (Some a) e = getBackgroundClass (Some b) e)
           \<longleftrightarrow> (\<forall>e. getWeatherIcon_part_000 a e = getWeatherIcon_part_000 b e)"
    and "(\<forall>e. getBackgroundClass (Some a) e = getBackgroundClass (Some b) e)
           \<longleftrightarrow> (\<forall>e. getWeatherIcon a e = getWeatherIcon b e)"
proof -
  from same_groups_on_labels assms
  have "(getBackgroundClass (Some (take 2 a)) (Some True) = getBackgroundClass (Some (take 2 b)) (Some True)
      \<and> getBackgroundClass (Some (take 2 a)) (Some False) = getBackgroundClass (Some (take 2 b)) (Some False))
     = (getWeatherIcon_part_000 (take 2 a) True = getWeatherIcon_part_000 (take 2 b) True
        \<and> getWeatherIcon_part_000 (take 2 a) False = getWeatherIcon_part_000 (take 2 b) False)"
    by blast
  then show "(\<forall>e. getBackgroundClass (Some a) e = getBackgroundClass (Some b) e)
           \<longleftrightarrow> (\<forall>e. getWeatherIcon_part_000 a e = getWeatherIcon_part_000 b e)"
    unfolding theme_all_flags icon_all_flags
    using to_prefix(1) [of a] to_prefix(1) [of b] to_prefix(3) [of a] to_prefix(3) [of b]
    by simp
  from same_groups_on_labels_page assms
  have "(getBackgroundClass (Some (take 2 a)) (Some True) = getBackgroundClass (Some (take 2 b)) (Some True)
      \<and> getBackgroundClass (Some (take 2 a)) (Some False) = getBackgroundClass (Some (take 2 b)) (Some False))
     = (getWeatherIcon (take 2 a) True = getWeatherIcon (take 2 b) True
        \<and> getWeatherIcon (take 2 a) False = getWeatherIcon (take 2 b) False)"
    by blast
  then show "(\<forall>e. getBackgroundClass (Some a) e = getBackgroundClass (Some b) e)
           \<longleftrightarrow> (\<forall>e. getWeatherIcon a e = getWeatherIcon b e)"
    unfolding theme_all_flags icon_all_flags
    using to_prefix(1) [of a] to_prefix(1) [of b] to_prefix(2) [of a] to_prefix(2) [of b]
    by simp
qed

text \<open>
  C8. The theme depends on the code only through its first two characters. Among codes
  whose prefix is a label of the \<^verbatim>\<open>switch\<close>, two codes have the same theme for every
  flag exactly when they have the same icon for every flag, in either copy of
  \<^verbatim>\<open>getWeatherIcon\<close>: the groups are the same. \<^verbatim>\<open>09\<close> and \<^verbatim>\<open>10\<close> give one theme. With
  no code (\<^verbatim>\<open>undefined\<close>, or the empty string), and so on every render before a snapshot
  exists, the theme is the neutral default; a code whose prefix is no label gets that
  same default, and nothing is raised.
\<close>

theorem getBackgroundClass_prefix_groups:
  "(take 2 a = take 2 b \<longrightarrow>
      getBackgroundClass (Some a) d = getBackgroundClass (Some b) d)
   \<and> (take 2 a \<in> set case_labels \<longrightarrow> take 2 b \<in> set case_labels \<longrightarrow>
        ((\<forall>e. getBackgroundClass (Some a) e = getBackgroundClass (Some b) e)
           \<longleftrightarrow> (\<forall>e. getWeatherIcon a e = getWeatherIcon b e))
        \<and> ((\<forall>e. getBackgroundClass (Some a) e = getBackgroundClass (Some b) e)
           \<longleftrightarrow> (\<forall>e. getWeatherIcon_part_000 a e = getWeatherIcon_part_000 b e)))
   \<and> getBackgroundClass (Some (''09'' @ r)) d = getBackgroundClass (Some (''10'' @ r')) d'
   \<and> getBackgroundClass None d = ''from-blue-100 to-blue-300 dark:from-gray-800 dark:to-gray-900''
   \<and> getBackgroundClass (Some []) d
       = ''from-blue-100 to-blue-300 dark:from-gray-800 dark:to-gray-900''
   \<and> (weatherData s = None \<longrightarrow>
        backgroundClass s = Inr ''from-blue-100 to-blue-300 dark:from-gray-800 dark:to-gray-900'')
   \<and> (take 2 a \<notin> set case_labels \<longrightarrow>
        getBackgroundClass (Some a) d
          = ''from-blue-100 to-blue-300 dark:from-gray-800 dark:to-gray-900'')"
proof -
  have before: "weatherData s = None \<longrightarrow>
      backgroundClass s = Inr ''from-blue-100 to-blue-300 dark:from-gray-800 dark:to-gray-900''"
    by (simp add: backgroundClass_def neutral_theme(1))
  show ?thesis
    using getBackgroundClass_by_prefix [of a b d] same_groups [of a b]
      rain_theme [of r d r' d'] neutral_theme(1) [of d] neutral_theme(2) [of d]
      neutral_theme(3) [of a d] before
    by blast
qed

theorem getBackgroundClass_prefix_groups_witness:
  "take 2 ''09d'' = take 2 ''09n''
   \<and> getBackgroundClass (Some ''09d'') (Some True) = getBackgroundClass (Some ''09n'') (Some True)
   \<and> take 2 ''09d'' \<in> set case_labels \<and> take 2 ''10n'' \<in> set case_labels
   \<and> ((\<forall>e. getBackgroundClass (Some ''09d'') e = getBackgroundClass (Some ''10n'') e)
        \<longleftrightarrow> (\<forall>e. getWeatherIcon ''09d'' e = getWeatherIcon ''10n'' e))
   \<and> weatherData initial = None
   \<and> backgroundClass initial = Inr ''from-blue-100 to-blue-300 dark:from-gray-800 dark:to-gray-900''
   \<and> take 2 ''99x'' \<notin> set case_labels
   \<and> getBackgroundClass (Some ''99x'') (Some True)
       = ''from-blue-100 to-blue-300 dark:from-gray-800 dark:to-gray-900''"
proof -
  have p: "take 2 ''09d'' = take 2 ''09n''" by simp
  have m: "take 2 ''09d'' \<in> set case_labels" "take 2 ''10n'' \<in> set case_labels"
    by (simp_all add: case_labels_def)
  have u: "take 2 ''99x'' \<notin> set case_labels" by (simp add: case_labels_def)
  have i: "weatherData initial = None" by (simp add: initial_def)
  from getBackgroundClass_prefix_groups [of "''09d''" "''09n''" "Some True"]
       getBackgroundClass_prefix_groups [of "''09d''" "''10n''" "Some True"]
       getBackgroundClass_prefix_groups [of "''99x''" "''99x''" "Some True" _ _ _ initial]
       p m u i
  show ?thesis by blast
qed

section \<open>Error message and snapshot\<close>

lemma handleSearch_keeps_invariant:
  assumes "one_pending_inv a" and "pending (handleSearch K a) \<le> 1"
  shows "one_pending_inv (handleSearch K a)"
  using assms
  by (auto simp: one_pending_inv_def handleSearch_def fetch_begin_def both_active_def)

lemma settle_keeps_invariant:
  assumes "one_pending_inv a" and "pending a \<noteq> 0"
  shows "one_pending_inv \<lparr>ui = fetch_settle r (ui a), pending = pending a - 1\<rparr>"
proof -
  from assms have p: "pending a = 1"
    and e: "error (ui a) = None" and w: "weatherData (ui a) = None"
    by (auto simp: one_pending_inv_def)
  show ?thesis
    using p e w
    by (simp add: one_pending_inv_def both_active_def fetch_settle_def Let_def
          split: fetch_result.split body.split)
qed

lemma step_keeps_invariant:
  assumes "one_pending_inv a" and "step K e a = Some a'" and "pending a' \<le> 1"
  shows "one_pending_inv a'"
proof (cases e)
  case (ChangeCity t)
  with assms show ?thesis
    by (auto simp: one_pending_inv_def both_active_def split: if_splits)
next
  case (KeyDown k)
  with assms show ?thesis
    by (auto simp: handleSearch_keeps_invariant split: if_splits)
next
  case ClickSearch
  with assms show ?thesis
    by (auto simp: handleSearch_keeps_invariant split: if_splits)
next
  case ClickGoBack
  with assms show ?thesis
    by (auto simp: one_pending_inv_def both_active_def dismiss_def split: if_splits)
next
  case (Settle r)
  with assms(2) have p: "pending a \<noteq> 0"
    and a': "a' = \<lparr>ui = fetch_settle r (ui a), pending = pending a - 1\<rparr>"
    by (auto split: if_splits)
  from settle_keeps_invariant [OF assms(1) p] a' show ?thesis by simp
qed

lemma one_at_a_time_pending: "one_at_a_time K es a \<Longrightarrow> pending a \<le> 1"
  by (cases es) simp_all

lemma run_keeps_invariant:
  "one_pending_inv a \<Longrightarrow> one_at_a_time K es a \<Longrightarrow> run K es a = Some b \<Longrightarrow> one_pending_inv b"
proof (induction es arbitrary: a)
  case Nil
  then show ?case by simp
next
  case (Cons e es)
  from Cons.prems(3) obtain a' where st: "step K e a = Some a'" and rn: "run K es a' = Some b"
    by (auto split: option.splits)
  from Cons.prems(2) st have one: "one_at_a_time K es a'" by simp
  then have "pending a' \<le> 1" by (rule one_at_a_time_pending)
  with Cons.prems(1) st have "one_pending_inv a'" by (rule step_keeps_invariant)
  from Cons.IH [OF this one rn] show ?case .
qed

lemma start_invariant: "one_pending_inv start"
  by (simp add: one_pending_inv_def start_def initial_def both_active_def)

text \<open>
  C5, as stated, asks that no reachable state holds an error message and a snapshot at
  once. One is reachable: type a city and press Enter, type another and press Enter
  again while the first request is pending (the key handler does not look at
  \<^verbatim>\<open>loading\<close>), let the first request settle with a record and the second with HTTP 404.
  The second settle sets the message and leaves the snapshot of the first in place.
\<close>

theorem overlapping_requests_both_active:
  "run None [ChangeCity ''Paris'', KeyDown ''Enter'', ChangeCity ''Zzz'', KeyDown ''Enter'',
          Settle (FetchResponse \<lparr>status = 200, json = BodyJson paris\<rparr>),
          Settle (FetchResponse \<lparr>status = 404, json = BodyThrows None\<rparr>)] start
   = Some \<lparr>ui = \<lparr>city = ''Zzz'', weatherData = Some paris, loading = False,
                 error = Some ''City not found. Please enter a valid city name.''\<rparr>,
            pending = 0\<rparr>
   \<and> both_active \<lparr>city = ''Zzz'', weatherData = Some paris, loading = False,
                 error = Some ''City not found. Please enter a valid city name.''\<rparr>"
  by (simp add: start_def initial_def handleSearch_def fetch_begin_def fetch_settle_def
        trim_def isWhiteSpace_def error_panel_def ok_def cod_paris both_active_def)

text \<open>
  C5, amended. In every state reached from the initial one by a run of the page's events
  (typing, Enter, the search button, the error panel's button, a request settling with
  any outcome) during which at most one request is pending at any time, the error
  message and the snapshot are not both present.
\<close>

theorem one_request_never_both_active:
  "run K es start = Some a \<Longrightarrow> one_at_a_time K es start \<Longrightarrow> \<not> both_active (ui a)"
  using run_keeps_invariant [OF start_invariant] by (auto simp: one_pending_inv_def)

theorem one_request_never_both_active_witness:
  "run None [ChangeCity ''Paris'', KeyDown ''Enter'',
          Settle (FetchResponse \<lparr>status = 200, json = BodyJson paris\<rparr>),
          ChangeCity ''Zzz'', ClickSearch,
          Settle (FetchResponse \<lparr>status = 404, json = BodyThrows None\<rparr>)] start
   = Some \<lparr>ui = \<lparr>city = ''Zzz'', weatherData = None, loading = False,
                 error = Some ''City not found. Please enter a valid city name.''\<rparr>,
            pending = 0\<rparr>
   \<and> one_at_a_time None [ChangeCity ''Paris'', KeyDown ''Enter'',
          Settle (FetchResponse \<lparr>status = 200, json = BodyJson paris\<rparr>),
          ChangeCity ''Zzz'', ClickSearch,
          Settle (FetchResponse \<lparr>status = 404, json = BodyThrows None\<rparr>)] start
   \<and> \<not> both_active \<lparr>city = ''Zzz'', weatherData = None, loading = False,
                 error = Some ''City not found. Please enter a valid city name.''\<rparr>"
proof -
  let ?es = "[ChangeCity ''Paris'', KeyDown ''Enter'',
          Settle (FetchResponse \<lparr>status = 200, json = BodyJson paris\<rparr>),
          ChangeCity ''Zzz'', ClickSearch,
          Settle (FetchResponse \<lparr>status = 404, json = BodyThrows None\<rparr>)]"
  let ?a = "\<lparr>ui = \<lparr>city = ''Zzz'', weatherData = None, loading = False,
                 error = Some ''City not found. Please enter a valid city name.''\<rparr>,
            pending = 0\<rparr>"
  have r: "run None ?es start = Some ?a"
    by (simp add: start_def initial_def handleSearch_def fetch_begin_def fetch_settle_def
        trim_def isWhiteSpace_def error_panel_def ok_def cod_paris)
  have o: "one_at_a_time None ?es start"
    by (simp add: start_def initial_def handleSearch_def fetch_begin_def fetch_settle_def
        trim_def isWhiteSpace_def error_panel_def ok_def cod_paris)
  from one_request_never_both_active [OF r o] r o show ?thesis by simp
qed

section \<open>The two ways a city is not found\<close>

text \<open>
  C1, as stated, asks that an HTTP 404 and an HTTP success whose payload has \<^verbatim>\<open>cod\<close> 404
  end in the same state with the same message, and with no snapshot stored. They do
  not end in the same state: from the initial state the first ends with the message
  \<^verbatim>\<open>City not found. Please enter a valid city name.\<close> and the second with
  \<^verbatim>\<open>City not found\<close>. Nor is the state always without a snapshot: when the request
  overlaps an earlier one whose response stored a snapshot, that snapshot is still
  there after the not-found response.
\<close>

theorem not_found_paths_not_identical:
  "fetchWeatherData None ''Zzzzznotacity''
       (FetchResponse \<lparr>status = 404, json = BodyThrows None\<rparr>) initial
     = \<lparr>city = [], weatherData = None, loading = False,
        error = Some ''City not found. Please enter a valid city name.''\<rparr>
   \<and> fetchWeatherData None ''Zzzzznotacity''
       (FetchResponse \<lparr>status = 200, json = BodyJson (paris\<lparr>cod := 404\<rparr>)\<rparr>) initial
     = \<lparr>city = [], weatherData = None, loading = False, error = Some ''City not found''\<rparr>
   \<and> fetchWeatherData None ''Zzzzznotacity''
       (FetchResponse \<lparr>status = 404, json = BodyThrows None\<rparr>) initial
     \<noteq> fetchWeatherData None ''Zzzzznotacity''
       (FetchResponse \<lparr>status = 200, json = BodyJson (paris\<lparr>cod := 404\<rparr>)\<rparr>) initial
   \<and> run None [ChangeCity ''Paris'', KeyDown ''Enter'', ChangeCity ''Zzz'', KeyDown ''Enter'',
          Settle (FetchResponse \<lparr>status = 200, json = BodyJson paris\<rparr>),
          Settle (FetchResponse \<lparr>status = 200, json = BodyJson (paris\<lparr>cod := 404\<rparr>)\<rparr>)] start
     = Some \<lparr>ui = \<lparr>city = ''Zzz'', weatherData = Some paris, loading = False,
                   error = Some ''City not found''\<rparr>,
              pending = 0\<rparr>"
  by (simp add: fetchWeatherData_def fetch_begin_def fetch_settle_def trim_def isWhiteSpace_def
        ok_def initial_def start_def handleSearch_def error_panel_def cod_paris)

text \<open>
  C1, amended. A response with HTTP status 404 and a response with a success status
  whose payload has \<^verbatim>\<open>cod\<close> 404 are handled alike but for the message. In whatever state
  the response arrives, each sets the error message, clears \<^verbatim>\<open>loading\<close> and changes no
  other field, so neither stores the payload as a snapshot; the message is
  \<^verbatim>\<open>City not found. Please enter a valid city name.\<close> for HTTP 404 and
  \<^verbatim>\<open>City not found\<close> for \<^verbatim>\<open>cod\<close> 404. The state that results holds no snapshot when no
  other request was pending during the fetch: for one call of \<^verbatim>\<open>fetchWeatherData\<close> with
  a query that is not blank, run to its end with nothing in between, and for the
  pending request of any run of the page's events with at most one request pending at
  any time.
\<close>

theorem not_found_both_paths:
  "status rh = 404 \<Longrightarrow> ok rp \<Longrightarrow> json rp = BodyJson d \<Longrightarrow> cod d = 404 \<Longrightarrow>
     fetch_settle (FetchResponse rh) s
       = s\<lparr>error := Some ''City not found. Please enter a valid city name.'', loading := False\<rparr>
     \<and> fetch_settle (FetchResponse rp) s
       = s\<lparr>error := Some ''City not found'', loading := False\<rparr>
     \<and> (trim cityName \<noteq> [] \<longrightarrow>
          fetchWeatherData K cityName (FetchResponse rh) s
            = s\<lparr>loading := False, weatherData := None,
                error := Some ''City not found. Please enter a valid city name.''\<rparr>
          \<and> fetchWeatherData K cityName (FetchResponse rp) s
            = s\<lparr>loading := False, weatherData := None, error := Some ''City not found''\<rparr>)
     \<and> (run K es start = Some a \<longrightarrow> one_at_a_time K es start \<longrightarrow> pending a = 1 \<longrightarrow>
          weatherData (ui a) = None
          \<and> step K (Settle (FetchResponse rh)) a
            = Some \<lparr>ui = (ui a)\<lparr>error := Some ''City not found. Please enter a valid city name.'',
                               loading := False\<rparr>,
                    pending = 0\<rparr>
          \<and> step K (Settle (FetchResponse rp)) a
            = Some \<lparr>ui = (ui a)\<lparr>error := Some ''City not found'', loading := False\<rparr>,
                    pending = 0\<rparr>)"
proof -
  assume h: "status rh = 404" and p: "ok rp" "json rp = BodyJson d" "cod d = 404"
  have settle_h: "fetch_settle (FetchResponse rh) t
      = t\<lparr>error := Some ''City not found. Please enter a valid city name.'', loading := False\<rparr>"
    for t
    using h by (simp add: fetch_settle_def ok_def)
  have settle_p: "fetch_settle (FetchResponse rp) t
      = t\<lparr>error := Some ''City not found'', loading := False\<rparr>"
    for t
    using p by (simp add: fetch_settle_def)
  have whole: "trim cityName \<noteq> [] \<longrightarrow>
          fetchWeatherData K cityName (FetchResponse rh) s
            = s\<lparr>loading := False, weatherData := None,
                error := Some ''City not found. Please enter a valid city name.''\<rparr>
          \<and> fetchWeatherData K cityName (FetchResponse rp) s
            = s\<lparr>loading := False, weatherData := None, error := Some ''City not found''\<rparr>"
    by (simp add: fetchWeatherData_def fetch_begin_def settle_h settle_p)
  have in_run: "run K es start = Some a \<longrightarrow> one_at_a_time K es start \<longrightarrow> pending a = 1 \<longrightarrow>
          weatherData (ui a) = None
          \<and> step K (Settle (FetchResponse rh)) a
            = Some \<lparr>ui = (ui a)\<lparr>error := Some ''City not found. Please enter a valid city name.'',
                               loading := False\<rparr>,
                    pending = 0\<rparr>
          \<and> step K (Settle (FetchResponse rp)) a
            = Some \<lparr>ui = (ui a)\<lparr>error := Some ''City not found'', loading := False\<rparr>,
                    pending = 0\<rparr>"
  proof (intro impI)
    assume r: "run K es start = Some a" and o: "one_at_a_time K es start" and one: "pending a = 1"
    from run_keeps_invariant [OF start_invariant o r] one
    have "weatherData (ui a) = None" by (simp add: one_pending_inv_def)
    with one show "weatherData (ui a) = None
          \<and> step K (Settle (FetchResponse rh)) a
            = Some \<lparr>ui = (ui a)\<lparr>error := Some ''City not found. Please enter a valid city name.'',
                               loading := False\<rparr>,
                    pending = 0\<rparr>
          \<and> step K (Settle (FetchResponse rp)) a
            = Some \<lparr>ui = (ui a)\<lparr>error := Some ''City not found'', loading := False\<rparr>,
                    pending = 0\<rparr>"
      by (simp add: settle_h settle_p)
  qed
  from settle_h [of s] settle_p [of s] whole in_run
  show ?thesis by blast
qed

theorem not_found_both_paths_witness:
  "ok \<lparr>status = 200, json = BodyJson (paris\<lparr>cod := 404\<rparr>)\<rparr>
   \<and> fetch_settle (FetchResponse \<lparr>status = 404, json = BodyThrows None\<rparr>)
        \<lparr>city = ''Atlantis'', weatherData = Some paris, loading = True, error = None\<rparr>
      = \<lparr>city = ''Atlantis'', weatherData = Some paris, loading = False,
         error = Some ''City not found. Please enter a valid city name.''\<rparr>
   \<and> fetch_settle (FetchResponse \<lparr>status = 200, json = BodyJson (paris\<lparr>cod := 404\<rparr>)\<rparr>)
        \<lparr>city = ''Atlantis'', weatherData = Some paris, loading = True, error = None\<rparr>
      = \<lparr>city = ''Atlantis'', weatherData = Some paris, loading = False,
         error = Some ''City not found''\<rparr>
   \<and> trim ''Atlantis'' \<noteq> []
   \<and> fetchWeatherData None ''Atlantis''
        (FetchResponse \<lparr>status = 404, json = BodyThrows None\<rparr>)
        \<lparr>city = ''Atlantis'', weatherData = Some paris, loading = True, error = None\<rparr>
      = \<lparr>city = ''Atlantis'', weatherData = None, loading = False,
         error = Some ''City not found. Please enter a valid city name.''\<rparr>
   \<and> fetchWeatherData None ''Atlantis''
        (FetchResponse \<lparr>status = 200, json = BodyJson (paris\<lparr>cod := 404\<rparr>)\<rparr>)
        \<lparr>city = ''Atlantis'', weatherData = Some paris, loading = True, error = None\<rparr>
      = \<lparr>city = ''Atlantis'', weatherData = None, loading = False,
         error = Some ''City not found''\<rparr>
   \<and> run None [ChangeCity ''Atlantis'', KeyDown ''Enter''] start
      = Some \<lparr>ui = \<lparr>city = ''Atlantis'', weatherData = None, loading = True, error = None\<rparr>,
               pending = 1\<rparr>
   \<and> one_at_a_time None [ChangeCity ''Atlantis'', KeyDown ''Enter''] start
   \<and> step None (Settle (FetchResponse \<lparr>status = 200, json = BodyJson (paris\<lparr>cod := 404\<rparr>)\<rparr>))
        \<lparr>ui = \<lparr>city = ''Atlantis'', weatherData = None, loading = True, error = None\<rparr>,
         pending = 1\<rparr>
      = Some \<lparr>ui = \<lparr>city = ''Atlantis'', weatherData = None, loading = False,
                    error = Some ''City not found''\<rparr>,
               pending = 0\<rparr>"
proof -
  let ?rh = "\<lparr>status = 404, json = BodyThrows None\<rparr>"
  let ?rp = "\<lparr>status = 200, json = BodyJson (paris\<lparr>cod := 404\<rparr>)\<rparr>"
  let ?s = "\<lparr>city = ''Atlantis'', weatherData = Some paris, loading = True, error = None\<rparr>"
  let ?es = "[ChangeCity ''Atlantis'', KeyDown ''Enter'']"
  let ?a = "\<lparr>ui = \<lparr>city = ''Atlantis'', weatherData = None, loading = True, error = None\<rparr>,
             pending = 1\<rparr>"
  have t: "trim ''Atlantis'' \<noteq> []"
    by (simp add: trim_def isWhiteSpace_def)
  have sh: "status ?rh = 404" by simp
  have op: "ok ?rp" by (simp add: ok_def)
  have jp: "json ?rp = BodyJson (paris\<lparr>cod := 404\<rparr>)" by simp
  have cp: "cod (paris\<lparr>cod := 404\<rparr>) = 404" by simp
  have r: "run None ?es start = Some ?a"
    by (simp add: start_def initial_def handleSearch_def fetch_begin_def trim_def
          isWhiteSpace_def error_panel_def)
  have o: "one_at_a_time None ?es start"
    by (simp add: start_def initial_def handleSearch_def fetch_begin_def trim_def
          isWhiteSpace_def error_panel_def)
  have p1: "pending ?a = 1" by simp
  from not_found_both_paths [OF sh op jp cp, of ?s "''Atlantis''" None ?es ?a] t op r o p1
  show ?thesis by simp
qed

section \<open>Dates and times on any host\<close>

lemma host_zone_shows_without_option:
  "toLocaleString demo_platform host_london TimeString (new_Date 0) []
      \<lparr>weekday = None, year = None, month = None, day = None,
       hour = Some ''2-digit'', minute = Some ''2-digit'', timeZone = None\<rparr> = ''en-GB hour 0''
   \<and> toLocaleString demo_platform host_kolkata TimeString (new_Date 0) []
      \<lparr>weekday = None, year = None, month = None, day = None,
       hour = Some ''2-digit'', minute = Some ''2-digit'', timeZone = None\<rparr> = ''en-GB hour 5''"
  by (simp add: toLocaleString_def demo_platform_def host_london_def host_kolkata_def new_Date_def
        String_of_int_def digits.simps digit_def)

lemma getFormattedTime_example:
  "getFormattedTime demo_platform host_kolkata 1700020000 3600 = ''en-GB hour 4''"
  "getFormattedTime demo_platform host_london 1700020000 3600 = ''en-GB hour 4''"
  by (simp_all add: getFormattedTime_def js_add_exact js_mul_exact toLocaleString_def
        demo_platform_def host_kolkata_def host_london_def new_Date_def String_of_int_def
        digits.simps digit_def)

text \<open>
  C9. For every platform formatter, \<^verbatim>\<open>getFormattedTime\<close> and \<^verbatim>\<open>getFormattedDate\<close> give the
  same text on any two hosts that have the same locale, whatever their own zones are,
  and for any two pairs of timestamp and offset with the same sum: the text depends on
  the shifted time only. (The options name the zone \<^verbatim>\<open>UTC\<close>, so the host's own offset is
  never added; without that option it would be, as the lemma above shows.)
\<close>

theorem formatted_by_shifted_time_only:
  "defaultLocale h1 = defaultLocale h2 \<Longrightarrow> e1 + o1 = e2 + o2 \<Longrightarrow>
     getFormattedTime P h1 e1 o1 = getFormattedTime P h2 e2 o2
     \<and> getFormattedDate P h1 e1 o1 = getFormattedDate P h2 e2 o2"
  by (simp add: getFormattedTime_def getFormattedDate_def js_add_def toLocaleString_def Let_def
        split: option.split)

theorem formatted_by_shifted_time_only_witness:
  "defaultLocale host_london = defaultLocale host_kolkata
   \<and> localOffset host_london 0 \<noteq> localOffset host_kolkata 0
   \<and> (1700020000::int) + 3600 = 1700000000 + 23600
   \<and> getFormattedTime demo_platform host_london 1700020000 3600
       = getFormattedTime demo_platform host_kolkata 1700000000 23600
   \<and> getFormattedDate demo_platform host_london 1700020000 3600
       = getFormattedDate demo_platform host_kolkata 1700000000 23600"
proof -
  have l: "defaultLocale host_london = defaultLocale host_kolkata"
    by (simp add: host_london_def host_kolkata_def)
  have z: "localOffset host_london 0 \<noteq> localOffset host_kolkata 0"
    by (simp add: host_london_def host_kolkata_def)
  have e: "(1700020000::int) + 3600 = 1700000000 + 23600" by simp
  from formatted_by_shifted_time_only [OF l e, of demo_platform] l z e show ?thesis by simp
qed

end
